theory Spec2Isabelle
  imports Complex_Main
begin

section \<open>lingua_nostra/time.py: leap years\<close>

text \<open>
  \<^verbatim>\<open>
  def is_leap_year(year):
      return (year % 400 == 0) or ((year % 4 == 0) and (year % 100 != 0))
  \<close>
  A year is a Python integer. Python's \<^verbatim>\<open>%\<close> with a positive right operand is the
  floor remainder, which is \<open>mod\<close> on \<^typ>\<open>int\<close>.
\<close>

definition is_leap_year :: "int \<Rightarrow> bool" where
  "is_leap_year year \<longleftrightarrow> year mod 400 = 0 \<or> (year mod 4 = 0 \<and> year mod 100 \<noteq> 0)"

text \<open>
  \<^verbatim>\<open>
  def get_next_leap_year(year):
      next_year = year + 1
      if is_leap_year(next_year):
          return next_year
      else:
          return get_next_leap_year(next_year)
  \<close>
  The recursion is not structural. Every call moves one year on, and from a year that
  is no multiple of 400 this brings the next multiple of 400, a leap year, closer: that
  distance is the measure of the termination proof, so the function is total and the
  call returns for every year.
\<close>

function get_next_leap_year :: "int \<Rightarrow> int" where
  "get_next_leap_year year =
     (let next_year = year + 1 in
      if is_leap_year next_year then next_year else get_next_leap_year next_year)"
  by pat_completeness auto
termination
proof (relation "measure (\<lambda>year. nat ((- (year + 1)) mod 400))")
  show "wf (measure (\<lambda>year. nat ((- (year + 1)) mod 400)))"
    by simp
next
  fix year next_year :: int
  assume n: "next_year = year + 1" and l: "\<not> is_leap_year next_year"
  define y where "y = year + 1"
  from l have a: "y mod 400 \<noteq> 0"
    by (simp add: is_leap_year_def n y_def)
  have b: "0 \<le> y mod 400" "y mod 400 < 400" by simp_all
  have m: "(- y) mod 400 = 400 - y mod 400"
    using a by (simp add: zmod_zminus1_eq_if)
  have "(- (y + 1)) mod 400 = ((- y) mod 400 - 1) mod 400"
    by (simp add: mod_diff_left_eq)
  also have "\<dots> = (399 - y mod 400) mod 400"
    by (simp add: m)
  also have "\<dots> = 399 - y mod 400"
    using a b by (intro mod_pos_pos_trivial) linarith+
  finally have "(- (y + 1)) mod 400 < (- y) mod 400"
    using m by simp
  then show "(next_year, year) \<in> measure (\<lambda>year. nat ((- (year + 1)) mod 400))"
    by (simp add: n y_def)
qed

text \<open>
  The number of activations of \<open>get_next_leap_year\<close> that the call on \<open>year\<close> makes,
  the first one included: the same recursion, counting one for each activation. (The
  recursive calls are one fewer.)
\<close>

function get_next_leap_year_calls :: "int \<Rightarrow> nat" where
  "get_next_leap_year_calls year =
     (let next_year = year + 1 in
      if is_leap_year next_year then 1 else Suc (get_next_leap_year_calls next_year))"
  by pat_completeness auto
termination
proof (relation "measure (\<lambda>year. nat ((- (year + 1)) mod 400))")
  show "wf (measure (\<lambda>year. nat ((- (year + 1)) mod 400)))"
    by simp
next
  fix year next_year :: int
  assume n: "next_year = year + 1" and l: "\<not> is_leap_year next_year"
  define y where "y = year + 1"
  from l have a: "y mod 400 \<noteq> 0"
    by (simp add: is_leap_year_def n y_def)
  have b: "0 \<le> y mod 400" "y mod 400 < 400" by simp_all
  have m: "(- y) mod 400 = 400 - y mod 400"
    using a by (simp add: zmod_zminus1_eq_if)
  have "(- (y + 1)) mod 400 = ((- y) mod 400 - 1) mod 400"
    by (simp add: mod_diff_left_eq)
  also have "\<dots> = (399 - y mod 400) mod 400"
    by (simp add: m)
  also have "\<dots> = 399 - y mod 400"
    using a b by (intro mod_pos_pos_trivial) linarith+
  finally have "(- (y + 1)) mod 400 < (- y) mod 400"
    using m by simp
  then show "(next_year, year) \<in> measure (\<lambda>year. nat ((- (year + 1)) mod 400))"
    by (simp add: n y_def)
qed

section \<open>lingua_nostra/time.py: the default timezone and the conversions\<close>

subsection \<open>Datetimes and zones of the Python library\<close>








subsection \<open>The module\<close>







subsection \<open>Instants\<close>





subsection \<open>A host and two datetimes\<close>




section \<open>lingua_nostra/lang/common_data_en.py: the English number words\<close>

text \<open>
  The tables of \<^verbatim>\<open>common_data_en.py\<close>, as association lists in the order of the source.
  Numbers are exact rationals: a Python \<^verbatim>\<open>float\<close> such as \<^verbatim>\<open>1e12\<close> or \<^verbatim>\<open>0.5\<close> stands
  for the number its literal denotes, and rounding is outside the model.
\<close>

definition ARTICLES_EN :: "string list" where
  "ARTICLES_EN = [''a'', ''an'', ''the'']"

















section \<open>The number extractor, from the specification\<close>

text \<open>
  \<^verbatim>\<open>extract_number\<close> is defined in \<^verbatim>\<open>lingua_nostra/parse.py\<close> and
  \<^verbatim>\<open>lingua_nostra/lang/parse_en.py\<close>, which are not among the sources: the sources hold
  the tables above and the tests of \<^verbatim>\<open>test/test_parse_en.py\<close>. The definitions of this
  section are therefore written from sections 3 and 4.2 of the specification, over the
  tables of the source; where the specification leaves a choice open, the values that
  \<^verbatim>\<open>test_parse_en.py\<close> expects decide it, and the text says so.
\<close>

subsection \<open>Tokens\<close>







subsection \<open>Digit literals\<close>







subsection \<open>What a token stands for\<close>









subsection \<open>Folding a number phrase\<close>











subsection \<open>All numbers of a token sequence\<close>




subsection \<open>Fraction and decimal markers\<close>







subsection \<open>The first number of a text\<close>




section \<open>The vocabulary of the properties of the number extractor\<close>






declare get_next_leap_year.simps [simp del] get_next_leap_year_calls.simps [simp del]

section \<open>Properties of the leap year search\<close>

subsection \<open>How far the next leap year is\<close>

lemma calls_le_distance:
  "is_leap_year (year + int k) \<Longrightarrow> 0 < k \<Longrightarrow> get_next_leap_year_calls year \<le> k"
proof (induction k arbitrary: year)
  case 0
  then show ?case by simp
next
  case (Suc k)
  show ?case
  proof (cases "is_leap_year (year + 1)")
    case True
    then show ?thesis
      by (subst get_next_leap_year_calls.simps) simp
  next
    case False
    with Suc.prems have "k \<noteq> 0" by (cases k) auto
    moreover from Suc.prems have "is_leap_year (year + 1 + int k)"
      by (simp add: add.commute add.left_commute)
    ultimately have "get_next_leap_year_calls (year + 1) \<le> k"
      using Suc.IH by simp
    with False show ?thesis
      by (subst get_next_leap_year_calls.simps) simp
  qed
qed

text \<open>
  Of the eight years after any year two are multiples of 4, four years apart; when the
  first is a century that is no leap year, the second is no century.
\<close>

lemma leap_year_within_8: "\<exists>k. 0 < k \<and> k \<le> 8 \<and> is_leap_year (year + int k)"
proof -
  define d where "d = nat (4 - year mod 4)"
  have "0 \<le> year mod 4" "year mod 4 < 4" by simp_all
  then have d12: "0 < d" "d \<le> 4" and di: "int d = 4 - year mod 4"
    unfolding d_def by linarith+
  have "(year + int d) mod 4 = (year - year mod 4 + 4) mod 4"
    by (simp add: di algebra_simps)
  also have "\<dots> = 0"
    by (simp add: minus_mod_eq_mult_div)
  finally have d: "0 < d" "d \<le> 4" "(year + int d) mod 4 = 0"
    using d12 by simp_all
  show ?thesis
  proof (cases "is_leap_year (year + int d)")
    case True
    with d show ?thesis by (intro exI [of _ d]) simp
  next
    case False
    with d have c: "(year + int d) mod 100 = 0"
      by (simp add: is_leap_year_def)
    have "(year + int d + 4) mod 100 = ((year + int d) mod 100 + 4) mod 100"
      by (simp add: mod_add_left_eq)
    then have "(year + int d + 4) mod 100 = 4"
      by (simp add: c)
    moreover have "(year + int d + 4) mod 4 = 0"
      using d(3) by presburger
    ultimately have "is_leap_year (year + int (d + 4))"
      by (simp add: is_leap_year_def add.assoc)
    with d show ?thesis by (intro exI [of _ "d + 4"]) simp
  qed
qed

lemma get_next_leap_year_advance:
  "get_next_leap_year year = year + int (get_next_leap_year_calls year)"
proof (induction year rule: get_next_leap_year.induct)
  case (1 year)
  show ?case
  proof (cases "is_leap_year (year + 1)")
    case True
    then show ?thesis
      by (simp add: get_next_leap_year.simps [of year] get_next_leap_year_calls.simps [of year])
  next
    case False
    then show ?thesis
      using "1" [of "year + 1"]
      by (simp add: get_next_leap_year.simps [of year]
          get_next_leap_year_calls.simps [of year] Let_def)
  qed
qed

lemma get_next_leap_year_is_leap: "is_leap_year (get_next_leap_year year)"
proof (induction year rule: get_next_leap_year.induct)
  case (1 year)
  show ?case
  proof (cases "is_leap_year (year + 1)")
    case True
    then show ?thesis
      by (simp add: get_next_leap_year.simps [of year])
  next
    case False
    then show ?thesis
      using "1" [of "year + 1"]
      by (simp add: get_next_leap_year.simps [of year])
  qed
qed

subsection \<open>The depth of the leap year search\<close>

text \<open>
  C9, as stated: for every year \<open>get_next_leap_year\<close> terminates and its recursion takes at
  most 4 steps. The bound fails across a century that is no leap year: from 1896 the next
  leap year is 1904, since 1900 is none, and the search makes 8 activations (7 recursive
  calls).
\<close>

theorem get_next_leap_year_4_steps_counterexample:
  "get_next_leap_year 1896 = 1904 \<and> get_next_leap_year_calls 1896 = 8 \<and>
   \<not> get_next_leap_year_calls 1896 \<le> 4"
  by (simp add: get_next_leap_year.simps get_next_leap_year_calls.simps is_leap_year_def)

text \<open>
  C9, amended: for every year \<open>get_next_leap_year\<close> terminates (it is a total function)
  and makes at most 8 activations, each moving one year on; it returns a leap year at
  most 8 years after \<open>year\<close>.
\<close>

theorem get_next_leap_year_at_most_8_calls:
  "get_next_leap_year_calls year \<le> 8 \<and>
   get_next_leap_year year = year + int (get_next_leap_year_calls year) \<and>
   is_leap_year (get_next_leap_year year)"
proof -
  obtain k where "0 < k" "k \<le> 8" "is_leap_year (year + int k)"
    using leap_year_within_8 by blast
  then have "get_next_leap_year_calls year \<le> 8"
    using calls_le_distance [of year k] by simp
  then show ?thesis
    by (simp add: get_next_leap_year_advance [symmetric] get_next_leap_year_is_leap)
qed

text \<open>
  From 2017 the search makes three activations and returns 2020.
\<close>

theorem get_next_leap_year_at_most_8_calls_witness:
  "get_next_leap_year_calls 2017 \<le> 8 \<and>
   get_next_leap_year 2017 = 2017 + int (get_next_leap_year_calls 2017) \<and>
   is_leap_year (get_next_leap_year 2017) \<and> get_next_leap_year 2017 = 2020"
  using get_next_leap_year_at_most_8_calls [of 2017]
  by (simp add: get_next_leap_year.simps is_leap_year_def)

section \<open>Properties of the conversions\<close>







subsection \<open>What the conversions do with aware and naive datetimes\<close>



subsection \<open>To UTC and back to the default zone\<close>



section \<open>Properties of the number extractor\<close>

subsection \<open>Tokens that are no number tokens\<close>















subsection \<open>A text with one number token\<close>













subsection \<open>The words of the examples\<close>




















subsection \<open>A lone ordinal word\<close>




subsection \<open>The scale accumulator\<close>



subsection \<open>No number, and the number zero\<close>



end
